theory Spec2Isabelle
  imports Main "HOL-Library.Word"
begin

section \<open>JavaScript strings\<close>

text \<open>
  A JavaScript string is a sequence of UTF-16 code units. The literals of \<^verbatim>\<open>popup.js\<close>
  are ASCII, so \<open>js\<close> maps each character of an Isabelle literal to its code unit.
\<close>

type_synonym jsstring = "16 word list"

definition js :: "string \<Rightarrow> jsstring" where
  "js cs = map of_char cs"

text \<open>
  \<^verbatim>\<open>String.prototype.trim\<close> strips the code units that ECMAScript calls WhiteSpace
  (TAB, VT, FF, SP, NBSP, ZWNBSP and the Unicode space separators) and LineTerminator
  (LF, CR, LS, PS) from both ends. All of them are single code units.
\<close>

definition isWhiteSpace :: "16 word \<Rightarrow> bool" where
  "isWhiteSpace c \<longleftrightarrow>
     c \<in> {0x0009, 0x000A, 0x000B, 0x000C, 0x000D, 0x0020, 0x00A0, 0x1680,
          0x2028, 0x2029, 0x202F, 0x205F, 0x3000, 0xFEFF}
     \<or> (0x2000 \<le> c \<and> c \<le> 0x200A)"

definition trim :: "jsstring \<Rightarrow> jsstring" where
  "trim s = rev (dropWhile isWhiteSpace (rev (dropWhile isWhiteSpace s)))"

section \<open>Data model\<close>

record note_section =
  title :: jsstring
  content :: jsstring

text \<open>The field \<^verbatim>\<open>id\<close> of a note is \<open>note_id\<close> here (\<open>id\<close> is HOL's identity).\<close>

record noteData =
  note_id :: int
  timestamp :: jsstring
  sections :: "note_section list"

text \<open>
  A thrown value carries the \<^verbatim>\<open>message\<close> that the catch of \<^verbatim>\<open>generateNotes\<close> reads.
  \<open>TypeError\<close> is what the engine throws on a property access through
  \<^verbatim>\<open>undefined\<close> or \<^verbatim>\<open>null\<close>; \<open>Error\<close> is every other rejection.
\<close>

datatype error = Error jsstring | TypeError jsstring

fun message :: "error \<Rightarrow> jsstring" where
  "message (Error m) = m"
| "message (TypeError m) = m"

subsection \<open>The platform: AI services, clock, storage\<close>

text \<open>
  \<^verbatim>\<open>window.ai\<close> and its two services may be absent (\<open>None\<close>). A call either rejects
  (\<open>Inl\<close>) or resolves (\<open>Inr\<close>). The capability query resolves to the value of the
  \<^verbatim>\<open>available\<close> property, \<open>None\<close> when the result has none.
\<close>

record summarizer_instance =
  summarize :: "jsstring \<Rightarrow> error + jsstring"
  summarizer_destroy :: "error + unit"

record session_instance =
  prompt :: "jsstring \<Rightarrow> error + jsstring"
  session_destroy :: "error + unit"

record summarizer_api =
  summarizer_capabilities :: "error + jsstring option"
  summarizer_create :: "error + summarizer_instance"

record languageModel_api =
  languageModel_capabilities :: "error + jsstring option"
  languageModel_create :: "error + session_instance"

record ai_api =
  ai_summarizer :: "summarizer_api option"
  ai_languageModel :: "languageModel_api option"

text \<open>
  \<open>date_now\<close> is \<^verbatim>\<open>Date.now()\<close>, \<open>date_iso\<close> is \<^verbatim>\<open>new Date().toISOString()\<close>, and
  \<open>storage_set\<close> says whether \<^verbatim>\<open>chrome.storage.local.set\<close> rejects (\<open>Some\<close> the error).
\<close>

record env =
  window_ai :: "ai_api option"
  date_now :: int
  date_iso :: jsstring
  storage_set :: "error option"

subsection \<open>The popup's state\<close>

datatype display = DNone | DFlex | DBlock

record tab =
  tab_noteIndex :: nat
  tab_sectionIndex :: nat
  tab_title :: jsstring
  tab_active :: bool

record pane =
  pane_noteIndex :: nat
  pane_sectionIndex :: nat
  pane_heading :: jsstring
  pane_content :: jsstring
  pane_active :: bool

text \<open>Calls that leave the popup, in the order they are made.\<close>

datatype call =
    SummarizerCapabilities
  | LanguageModelCapabilities
  | SummarizerCreate
  | Summarize jsstring
  | LanguageModelCreate
  | Prompt jsstring
  | SummarizerDestroy
  | SessionDestroy
  | StorageSet "noteData list"
  | StorageGet

datatype log_entry =
    ErrorGenerating error
  | ErrorSaving error
  | ErrorLoading error

text \<open>
  \<open>notes\<close> and \<open>currentNoteIndex\<close> are the module variables; the three views are the
  \<^verbatim>\<open>style.display\<close> of the three elements; \<open>inputText\<close> is the \<^verbatim>\<open>value\<close> of the text area
  and \<open>errorMsg\<close> the string last assigned to the \<^verbatim>\<open>innerHTML\<close> of the error element;
  \<open>console\<close> collects the \<^verbatim>\<open>console.error\<close> calls; \<open>storage\<close> is what
  \<^verbatim>\<open>chrome.storage.local\<close> holds under the key \<^verbatim>\<open>notes\<close>; \<open>calls\<close> records every call to the AI
  services and to the storage.

  \<open>errorMsg\<close> is markup, not text: the page parses what is assigned. It is what the user
  reads, and what \<^verbatim>\<open>innerHTML\<close> reads back, only when the string between the \<^verbatim>\<open>div\<close> tags has no
  markup of its own, as with the two literal messages of \<^verbatim>\<open>popup.js\<close>. The tabs and panes
  are filled through \<^verbatim>\<open>textContent\<close> and hold text.
\<close>

record state =
  "notes" :: "noteData list"
  currentNoteIndex :: nat
  initialView :: display
  notesView :: display
  loadingView :: display
  inputText :: jsstring
  errorMsg :: jsstring
  tabsContainer :: "tab list"
  contentContainer :: "pane list"
  console :: "log_entry list"
  storage :: "noteData list option"
  calls :: "call list"

section \<open>View functions\<close>

definition showInitialView :: "state \<Rightarrow> state" where
  "showInitialView s =
     s\<lparr>initialView := DFlex, notesView := DNone, loadingView := DNone,
       inputText := [], errorMsg := []\<rparr>"

definition showNotesView :: "state \<Rightarrow> state" where
  "showNotesView s = s\<lparr>initialView := DNone, notesView := DFlex, loadingView := DNone\<rparr>"

definition showLoading :: "state \<Rightarrow> state" where
  "showLoading s = s\<lparr>initialView := DNone, notesView := DNone, loadingView := DBlock\<rparr>"

definition hideLoading :: "state \<Rightarrow> state" where
  "hideLoading s = s\<lparr>loadingView := DNone, initialView := DFlex\<rparr>"

text \<open>
  \<^verbatim>\<open>showError\<close> interpolates the message into the markup as it is, without escaping.
\<close>

definition showError :: "jsstring \<Rightarrow> state \<Rightarrow> state" where
  \<open>showError msg s = s\<lparr>errorMsg := js ''<div class="error">'' @ msg @ js ''</div>''\<rparr>\<close>

section \<open>Storage\<close>

text \<open>
  \<^verbatim>\<open>saveNotes\<close> hands the note list to the storage; a rejection is caught and logged.
\<close>

definition saveNotes :: "error option \<Rightarrow> state \<Rightarrow> state" where
  "saveNotes outcome s =
     (let s1 = s\<lparr>calls := calls s @ [StorageSet (notes s)]\<rparr>
      in case outcome of
           None \<Rightarrow> s1\<lparr>storage := Some (notes s)\<rparr>
         | Some e \<Rightarrow> s1\<lparr>console := console s1 @ [ErrorSaving e]\<rparr>)"

section \<open>Rendering\<close>

definition renderNotes :: "state \<Rightarrow> state" where
  "renderNotes s =
     (if length (notes s) = 0 then showInitialView s
      else s\<lparr>tabsContainer :=
                concat (map (\<lambda>(noteIndex, n).
                  map (\<lambda>(sectionIndex, sec).
                    \<lparr>tab_noteIndex = noteIndex, tab_sectionIndex = sectionIndex,
                     tab_title = title sec,
                     tab_active = (noteIndex = currentNoteIndex s \<and> sectionIndex = 0)\<rparr>)
                  (enumerate 0 (sections n))) (enumerate 0 (notes s))),
              contentContainer :=
                concat (map (\<lambda>(noteIndex, n).
                  map (\<lambda>(sectionIndex, sec).
                    \<lparr>pane_noteIndex = noteIndex, pane_sectionIndex = sectionIndex,
                     pane_heading = title sec, pane_content = content sec,
                     pane_active = (noteIndex = currentNoteIndex s \<and> sectionIndex = 0)\<rparr>)
                  (enumerate 0 (sections n))) (enumerate 0 (notes s)))\<rparr>)"

definition loadNotes :: "error option \<Rightarrow> state \<Rightarrow> state" where
  "loadNotes outcome s =
     (let s1 = s\<lparr>calls := calls s @ [StorageGet]\<rparr>
      in case outcome of
           Some e \<Rightarrow> s1\<lparr>console := console s1 @ [ErrorLoading e]\<rparr>
         | None \<Rightarrow>
             (case storage s1 of
                None \<Rightarrow> s1
              | Some stored \<Rightarrow>
                  (let s2 = renderNotes (s1\<lparr>notes := stored\<rparr>)
                   in if length (notes s2) > 0 then showNotesView s2 else s2)))"

section \<open>Deleting and renaming sections\<close>

text \<open>\<^verbatim>\<open>xs.splice(i, 1)\<close> for an index \<open>i \<ge> 0\<close>; beyond the end it removes nothing.\<close>

definition splice1 :: "nat \<Rightarrow> 'a list \<Rightarrow> 'a list" where
  "splice1 i xs = take i xs @ drop (Suc i) xs"

text \<open>
  A handler that throws leaves the state as it was at the throw: \<open>Inl\<close> carries the
  error and that state.
\<close>

definition deleteSection :: "error option \<Rightarrow> nat \<Rightarrow> nat \<Rightarrow> state \<Rightarrow> (error \<times> state) + state" where
  "deleteSection outcome noteIndex sectionIndex s =
     (if noteIndex < length (notes s) then
        (let n = notes s ! noteIndex;
             s1 = (if length (sections n) = 1
                   then s\<lparr>notes := splice1 noteIndex (notes s)\<rparr>
                   else s\<lparr>notes := (notes s)[noteIndex :=
                                     n\<lparr>sections := splice1 sectionIndex (sections n)\<rparr>]\<rparr>)
         in Inr (renderNotes (saveNotes outcome s1)))
      else Inl (TypeError (js ''Cannot read properties of undefined (reading 'sections')''), s))"

text \<open>The \<^verbatim>\<open>blur\<close> handler of a tab's title, with the edited text.\<close>

definition titleSpan_blur :: "error option \<Rightarrow> nat \<Rightarrow> nat \<Rightarrow> jsstring \<Rightarrow> state \<Rightarrow> (error \<times> state) + state" where
  "titleSpan_blur outcome noteIndex sectionIndex textContent s =
     (if noteIndex < length (notes s) then
        (let n = notes s ! noteIndex
         in if sectionIndex < length (sections n) then
              Inr (saveNotes outcome
                (s\<lparr>notes := (notes s)[noteIndex :=
                     n\<lparr>sections := (sections n)[sectionIndex :=
                          (sections n ! sectionIndex)\<lparr>title := textContent\<rparr>]\<rparr>]\<rparr>))
            else Inl (TypeError (js ''Cannot set properties of undefined (setting 'title')''), s))
      else Inl (TypeError (js ''Cannot read properties of undefined (reading 'sections')''), s))"

text \<open>
  \<^verbatim>\<open>querySelector\<close> returns the first match; \<open>None\<close> is \<^verbatim>\<open>null\<close>.
\<close>

fun activate_tab :: "nat \<Rightarrow> nat \<Rightarrow> tab list \<Rightarrow> tab list option" where
  "activate_tab noteIndex sectionIndex [] = None"
| "activate_tab noteIndex sectionIndex (t # ts) =
     (if tab_noteIndex t = noteIndex \<and> tab_sectionIndex t = sectionIndex
      then Some (t\<lparr>tab_active := True\<rparr> # ts)
      else map_option ((#) t) (activate_tab noteIndex sectionIndex ts))"

fun activate_pane :: "nat \<Rightarrow> nat \<Rightarrow> pane list \<Rightarrow> pane list option" where
  "activate_pane noteIndex sectionIndex [] = None"
| "activate_pane noteIndex sectionIndex (p # ps) =
     (if pane_noteIndex p = noteIndex \<and> pane_sectionIndex p = sectionIndex
      then Some (p\<lparr>pane_active := True\<rparr> # ps)
      else map_option ((#) p) (activate_pane noteIndex sectionIndex ps))"

definition switchTab :: "nat \<Rightarrow> nat \<Rightarrow> state \<Rightarrow> (error \<times> state) + state" where
  "switchTab noteIndex sectionIndex s =
     (let s1 = s\<lparr>tabsContainer := map (\<lambda>t. t\<lparr>tab_active := False\<rparr>) (tabsContainer s)\<rparr>
      in case activate_tab noteIndex sectionIndex (tabsContainer s1) of
           None \<Rightarrow> Inl (TypeError (js ''Cannot read properties of null (reading 'classList')''), s1)
         | Some ts \<Rightarrow>
             (let s2 = s1\<lparr>tabsContainer := ts,
                         contentContainer :=
                           map (\<lambda>p. p\<lparr>pane_active := False\<rparr>) (contentContainer s1)\<rparr>
              in case activate_pane noteIndex sectionIndex (contentContainer s2) of
                   None \<Rightarrow>
                     Inl (TypeError (js ''Cannot read properties of null (reading 'classList')''), s2)
                 | Some ps \<Rightarrow>
                     Inr (s2\<lparr>contentContainer := ps, currentNoteIndex := noteIndex\<rparr>)))"

section \<open>Generating a note\<close>

text \<open>
  The body of the \<^verbatim>\<open>try\<close> block is a sequence of steps, each of which either throws
  (\<open>Inl\<close>, with the state at the throw) or yields a value and the next state.
\<close>

type_synonym 'a action = "state \<Rightarrow> (error \<times> state) + ('a \<times> state)"

definition throw :: "error \<Rightarrow> 'a action" where
  "throw e s = Inl (e, s)"

definition ret :: "'a \<Rightarrow> 'a action" where
  "ret a s = Inr (a, s)"

definition andThen :: "'a action \<Rightarrow> ('a \<Rightarrow> 'b action) \<Rightarrow> 'b action" where
  "andThen m f s = (case m s of Inl es \<Rightarrow> Inl es | Inr (a, s') \<Rightarrow> f a s')"

definition modify :: "(state \<Rightarrow> state) \<Rightarrow> unit action" where
  "modify f s = Inr ((), f s)"

text \<open>
  A call to the platform, awaited (\<^verbatim>\<open>capabilities\<close>, \<^verbatim>\<open>create\<close>, \<^verbatim>\<open>summarize\<close>, \<^verbatim>\<open>prompt\<close>) or not
  (\<^verbatim>\<open>destroy\<close>): it is recorded, then throws or yields its value.
\<close>

definition await :: "call \<Rightarrow> error + 'a \<Rightarrow> 'a action" where
  "await c r s =
     (let s1 = s\<lparr>calls := calls s @ [c]\<rparr>
      in case r of Inl e \<Rightarrow> Inl (e, s1) | Inr a \<Rightarrow> Inr (a, s1))"

text \<open>
  \<^verbatim>\<open>(await window.ai?.summarizer?.capabilities())?.available\<close>: the optional chain
  yields \<^verbatim>\<open>undefined\<close> without a call when \<^verbatim>\<open>window.ai\<close> or the service is absent.
\<close>

definition await_canSummarize :: "env \<Rightarrow> jsstring option action" where
  "await_canSummarize e =
     (case window_ai e of
        None \<Rightarrow> ret None
      | Some ai \<Rightarrow>
          (case ai_summarizer ai of
             None \<Rightarrow> ret None
           | Some api \<Rightarrow> await SummarizerCapabilities (summarizer_capabilities api)))"

definition await_canUseLanguageModel :: "env \<Rightarrow> jsstring option action" where
  "await_canUseLanguageModel e =
     (case window_ai e of
        None \<Rightarrow> ret None
      | Some ai \<Rightarrow>
          (case ai_languageModel ai of
             None \<Rightarrow> ret None
           | Some api \<Rightarrow> await LanguageModelCapabilities (languageModel_capabilities api)))"

definition unavailable_message :: jsstring where
  "unavailable_message =
     js ''Chrome Built-in AI APIs are not available. Make sure you have Chrome 127+ with AI features enabled.''"

text \<open>
  \<^verbatim>\<open>window.ai.summarizer.create(...)\<close> has no optional chaining: an absent
  \<^verbatim>\<open>window.ai\<close> or service is a TypeError.
\<close>

definition create_summarizer :: "env \<Rightarrow> summarizer_instance action" where
  "create_summarizer e =
     (case window_ai e of
        None \<Rightarrow> throw (TypeError (js ''Cannot read properties of undefined (reading 'summarizer')''))
      | Some ai \<Rightarrow>
          (case ai_summarizer ai of
             None \<Rightarrow> throw (TypeError (js ''Cannot read properties of undefined (reading 'create')''))
           | Some api \<Rightarrow> await SummarizerCreate (summarizer_create api)))"

definition create_session :: "env \<Rightarrow> session_instance action" where
  "create_session e =
     (case window_ai e of
        None \<Rightarrow> throw (TypeError (js ''Cannot read properties of undefined (reading 'languageModel')''))
      | Some ai \<Rightarrow>
          (case ai_languageModel ai of
             None \<Rightarrow> throw (TypeError (js ''Cannot read properties of undefined (reading 'create')''))
           | Some api \<Rightarrow> await LanguageModelCreate (languageModel_create api)))"

definition reflectionPrompt :: "jsstring \<Rightarrow> jsstring" where
  "reflectionPrompt summary =
     js ''Based on these notes:'' @ [0x0A, 0x0A] @ summary @ [0x0A, 0x0A] @
     js ''Write a brief reflection (2-3 sentences) about the key insights and their significance.''"

definition noteData :: "env \<Rightarrow> jsstring \<Rightarrow> jsstring \<Rightarrow> jsstring \<Rightarrow> noteData" where
  "noteData e summary reflection text =
     \<lparr>note_id = date_now e, timestamp = date_iso e,
      sections = [\<lparr>title = js ''Summary'', content = summary\<rparr>,
                  \<lparr>title = js ''Reflection'', content = reflection\<rparr>,
                  \<lparr>title = js ''Original Text'', content = text\<rparr>]\<rparr>"

definition generateNotes_try :: "env \<Rightarrow> jsstring \<Rightarrow> unit action" where
  "generateNotes_try e text =
     andThen (modify showLoading) (\<lambda>_.
     andThen (await_canSummarize e) (\<lambda>canSummarize.
     andThen (await_canUseLanguageModel e) (\<lambda>canUseLanguageModel.
     andThen (if canSummarize = Some (js ''no'') \<or> canUseLanguageModel = Some (js ''no'')
              then throw (Error unavailable_message) else ret ()) (\<lambda>_.
     andThen (create_summarizer e) (\<lambda>summarizer.
     andThen (await (Summarize text) (summarize summarizer text)) (\<lambda>summary.
     andThen (create_session e) (\<lambda>session.
     andThen (await (Prompt (reflectionPrompt summary))
                (prompt session (reflectionPrompt summary))) (\<lambda>reflection.
     andThen (modify (\<lambda>s. s\<lparr>notes := notes s @ [noteData e summary reflection text]\<rparr>)) (\<lambda>_.
     andThen (modify (saveNotes (storage_set e))) (\<lambda>_.
     andThen (modify (\<lambda>s. s\<lparr>currentNoteIndex := length (notes s) - 1\<rparr>)) (\<lambda>_.
     andThen (await SummarizerDestroy (summarizer_destroy summarizer)) (\<lambda>_.
     andThen (await SessionDestroy (session_destroy session)) (\<lambda>_.
     andThen (modify renderNotes) (\<lambda>_.
     andThen (modify showNotesView) (\<lambda>_.
     modify (\<lambda>s. s\<lparr>inputText := []\<rparr>))))))))))))))))"

definition generateNotes :: "env \<Rightarrow> state \<Rightarrow> state" where
  "generateNotes e s =
     (let text = trim (inputText s)
      in if text = [] then showError (js ''Please paste some text to generate notes.'') s
         else (case generateNotes_try e text s of
                 Inr (_, s') \<Rightarrow> s'
               | Inl (err, s') \<Rightarrow>
                   showError (js ''Error: '' @ message err)
                     (hideLoading (s'\<lparr>console := console s' @ [ErrorGenerating err]\<rparr>))))"

text \<open>The \<^verbatim>\<open>click\<close> handler of the clear button.\<close>

definition clearBtn_click :: "state \<Rightarrow> state" where
  "clearBtn_click s = s\<lparr>inputText := [], errorMsg := []\<rparr>"

section \<open>Notions used by the theorems\<close>

text \<open>
  The outcome of a capability query, \<open>None\<close> when the optional chain makes no call, and
  the calls such a chain records.
\<close>

definition summarizer_query :: "env \<Rightarrow> (error + jsstring option) option" where
  "summarizer_query e =
     (case window_ai e of None \<Rightarrow> None
      | Some ai \<Rightarrow> map_option summarizer_capabilities (ai_summarizer ai))"

definition languageModel_query :: "env \<Rightarrow> (error + jsstring option) option" where
  "languageModel_query e =
     (case window_ai e of None \<Rightarrow> None
      | Some ai \<Rightarrow> map_option languageModel_capabilities (ai_languageModel ai))"

definition query_calls :: "call \<Rightarrow> 'a option \<Rightarrow> call list" where
  "query_calls c q = (case q of None \<Rightarrow> [] | Some _ \<Rightarrow> [c])"

text \<open>The invariant of the note store, and of what the storage holds.\<close>

definition has_section :: "noteData \<Rightarrow> bool" where
  "has_section n \<longleftrightarrow> 1 \<le> length (sections n)"

definition store_inv :: "state \<Rightarrow> bool" where
  "store_inv s \<longleftrightarrow>
     list_all has_section (notes s) \<and>
     (case storage s of None \<Rightarrow> True | Some stored \<Rightarrow> list_all has_section stored)"

text \<open>
  The states the popup can be in. The extension starts with an empty storage; every
  opening of the popup starts the script afresh (no notes in memory) over the storage as
  the last session left it; after that the handlers run one at a time. A handler that
  throws before its first assignment leaves the state as it is.
\<close>

inductive reachable :: "state \<Rightarrow> bool" where
  installed: "notes s = [] \<Longrightarrow> storage s = None \<Longrightarrow> reachable s"
| reopened: "reachable s \<Longrightarrow> notes s' = [] \<Longrightarrow> storage s' = storage s \<Longrightarrow> reachable s'"
| loaded: "reachable s \<Longrightarrow> reachable (loadNotes outcome s)"
| typed: "reachable s \<Longrightarrow> reachable (s\<lparr>inputText := v\<rparr>)"
| generated: "reachable s \<Longrightarrow> reachable (generateNotes e s)"
| cleared: "reachable s \<Longrightarrow> reachable (clearBtn_click s)"
| new_note: "reachable s \<Longrightarrow> reachable (showInitialView s)"
| switched: "reachable s \<Longrightarrow> switchTab i j s = Inr s' \<Longrightarrow> reachable s'"
| switch_thrown: "reachable s \<Longrightarrow> switchTab i j s = Inl (err, s') \<Longrightarrow> reachable s'"
| deleted: "reachable s \<Longrightarrow> deleteSection outcome i j s = Inr s' \<Longrightarrow> reachable s'"
| renamed: "reachable s \<Longrightarrow> titleSpan_blur outcome i j v s = Inr s' \<Longrightarrow> reachable s'"

subsection \<open>Example platforms and states\<close>

definition example_summarizer :: "jsstring option \<Rightarrow> error + jsstring \<Rightarrow> summarizer_api" where
  "example_summarizer available summary =
     \<lparr>summarizer_capabilities = Inr available,
      summarizer_create = Inr \<lparr>summarize = (\<lambda>_. summary), summarizer_destroy = Inr ()\<rparr>\<rparr>"

definition example_languageModel :: "error + jsstring option \<Rightarrow> languageModel_api" where
  "example_languageModel caps =
     \<lparr>languageModel_capabilities = caps,
      languageModel_create = Inr \<lparr>prompt = (\<lambda>_. Inr (js ''R'')), session_destroy = Inr ()\<rparr>\<rparr>"

definition example_env ::
  "jsstring option \<Rightarrow> error + jsstring \<Rightarrow> error + jsstring option \<Rightarrow> error option \<Rightarrow> env" where
  "example_env available summary caps outcome =
     \<lparr>window_ai = Some \<lparr>ai_summarizer = Some (example_summarizer available summary),
                         ai_languageModel = Some (example_languageModel caps)\<rparr>,
      date_now = 1700000000000, date_iso = js ''2023-11-14T22:13:20.000Z'',
      storage_set = outcome\<rparr>"

definition ok_env :: env where
  "ok_env = example_env (Some (js ''readily'')) (Inr (js ''S'')) (Inr (Some (js ''readily''))) None"

definition example_state :: "jsstring \<Rightarrow> state" where
  "example_state v =
     \<lparr>notes = [], currentNoteIndex = 0, initialView = DFlex, notesView = DNone,
      loadingView = DNone, inputText = v, errorMsg = [], tabsContainer = [],
      contentContainer = [], console = [], storage = None, calls = []\<rparr>"

definition example_note :: "note_section list \<Rightarrow> noteData" where
  "example_note secs = \<lparr>note_id = 1, timestamp = js ''t'', sections = secs\<rparr>"

definition example_section :: "string \<Rightarrow> note_section" where
  "example_section t = \<lparr>title = js t, content = js ''c''\<rparr>"

definition example_store :: "noteData list \<Rightarrow> state" where
  "example_store ns = (example_state [])\<lparr>notes := ns, storage := Some ns\<rparr>"

text \<open>A platform whose summarizer rejects with an error whose message has markup.\<close>

definition markup_env :: env where
  "markup_env = example_env (Some (js ''readily'')) (Inl (Error (js ''<b>x</b>'')))
     (Inr (Some (js ''readily''))) None"


text \<open>The state a handler leaves, whether it returned or threw.\<close>

definition final_state :: "(error \<times> state) + state \<Rightarrow> state" where
  "final_state r = (case r of Inl (err, s) \<Rightarrow> s | Inr s \<Rightarrow> s)"

definition example_generated :: state where
  "example_generated = generateNotes ok_env (example_state (js '' hi ''))"

definition example_single :: state where
  "example_single =
     final_state (deleteSection None 0 0 (final_state (deleteSection None 0 0 example_generated)))"

definition quota_env :: env where
  "quota_env = example_env (Some (js ''readily'')) (Inr (js ''S'')) (Inr (Some (js ''readily'')))
     (Some (Error (js ''quota'')))"

definition example_two :: state where
  "example_two = (example_store [example_note [example_section ''A'', example_section ''B'']])
     \<lparr>inputText := js '' hi ''\<rparr>"

section \<open>Auxiliary facts\<close>

lemmas example_defs = example_store_def example_state_def example_note_def example_section_def

lemma js_append: "js (a @ b) = js a @ js b"
  by (simp add: js_def)

lemma notes_renderNotes: "notes (renderNotes s) = notes s"
  by (simp add: renderNotes_def showInitialView_def)

lemma storage_renderNotes: "storage (renderNotes s) = storage s"
  by (simp add: renderNotes_def showInitialView_def)

lemma calls_renderNotes: "calls (renderNotes s) = calls s"
  by (simp add: renderNotes_def showInitialView_def)

lemma console_renderNotes: "console (renderNotes s) = console s"
  by (simp add: renderNotes_def showInitialView_def)

lemma notes_saveNotes: "notes (saveNotes outcome s) = notes s"
  by (simp add: saveNotes_def Let_def split: option.splits)

lemma calls_saveNotes: "calls (saveNotes outcome s) = calls s @ [StorageSet (notes s)]"
  by (simp add: saveNotes_def Let_def split: option.splits)

lemma storage_saveNotes:
  "storage (saveNotes outcome s) = (case outcome of None \<Rightarrow> Some (notes s) | Some err \<Rightarrow> storage s)"
  by (simp add: saveNotes_def Let_def split: option.splits)

lemma console_saveNotes:
  "console (saveNotes outcome s) =
     (case outcome of None \<Rightarrow> console s | Some err \<Rightarrow> console s @ [ErrorSaving err])"
  by (simp add: saveNotes_def Let_def split: option.splits)

lemma errorMsg_saveNotes: "errorMsg (saveNotes outcome s) = errorMsg s"
  by (simp add: saveNotes_def Let_def split: option.splits)

lemma length_splice1: "i < length xs \<Longrightarrow> length (splice1 i xs) = length xs - 1"
  by (simp add: splice1_def)

lemma nth_splice1: "k < length xs - 1 \<Longrightarrow> splice1 i xs ! k = (if k < i then xs ! k else xs ! Suc k)"
  by (auto simp: splice1_def nth_append min_def)

section \<open>Steps of the try block\<close>

lemma andThen_InrE:
  assumes "andThen m f s = Inr r"
  obtains a s1 where "m s = Inr (a, s1)" and "f a s1 = Inr r"
  using assms by (auto simp: andThen_def split: sum.splits)

lemma andThen_InlE:
  assumes "andThen m f s = Inl r"
  obtains (thrown) "m s = Inl r" | (passed) a s1 where "m s = Inr (a, s1)" and "f a s1 = Inl r"
  using assms by (auto simp: andThen_def split: sum.splits)

lemma await_Inr: "await c r s = Inr (a, s1) \<longleftrightarrow> r = Inr a \<and> s1 = s\<lparr>calls := calls s @ [c]\<rparr>"
  by (auto simp: await_def Let_def split: sum.splits)

lemma await_Inl: "await c r s = Inl (x, s1) \<longleftrightarrow> r = Inl x \<and> s1 = s\<lparr>calls := calls s @ [c]\<rparr>"
  by (auto simp: await_def Let_def split: sum.splits)

lemma modify_Inr: "modify f s = Inr (a, s1) \<longleftrightarrow> s1 = f s"
  by (auto simp: modify_def)

lemma modify_Inl: "modify f s \<noteq> Inl x"
  by (simp add: modify_def)

lemma ret_Inr: "ret a s = Inr (b, s1) \<longleftrightarrow> b = a \<and> s1 = s"
  by (auto simp: ret_def)

lemma ret_Inl: "ret a s \<noteq> Inl x"
  by (simp add: ret_def)

lemma throw_Inl: "throw e s = Inl (x, s1) \<longleftrightarrow> x = e \<and> s1 = s"
  by (auto simp: throw_def)

lemma throw_Inr: "throw e s \<noteq> Inr x"
  by (simp add: throw_def)

lemmas step_simps = await_Inr await_Inl modify_Inr modify_Inl ret_Inr ret_Inl
  throw_Inl throw_Inr

lemma set_query_calls: "x \<in> set (query_calls c q) \<longleftrightarrow> x = c \<and> q \<noteq> None"
  by (auto simp: query_calls_def split: option.splits)

lemma distinct_query_calls: "distinct (query_calls c q)"
  by (simp add: query_calls_def split: option.splits)

lemma await_canSummarize_Inr:
  "await_canSummarize e s = Inr (a, s1) \<Longrightarrow>
     s1 = s\<lparr>calls := calls s @ query_calls SummarizerCapabilities (summarizer_query e)\<rparr>
     \<and> (summarizer_query e = Some (Inr (Some (js ''no''))) \<longleftrightarrow> a = Some (js ''no''))
     \<and> (\<forall>x. summarizer_query e \<noteq> Some (Inl x))"
  by (auto simp: await_canSummarize_def summarizer_query_def query_calls_def step_simps
      split: option.splits)

lemma await_canSummarize_Inl:
  "await_canSummarize e s = Inl (x, s1) \<Longrightarrow>
     s1 = s\<lparr>calls := calls s @ query_calls SummarizerCapabilities (summarizer_query e)\<rparr>
     \<and> summarizer_query e = Some (Inl x)"
  by (auto simp: await_canSummarize_def summarizer_query_def query_calls_def step_simps
      split: option.splits)

lemma await_canUseLanguageModel_Inr:
  "await_canUseLanguageModel e s = Inr (a, s1) \<Longrightarrow>
     s1 = s\<lparr>calls := calls s @ query_calls LanguageModelCapabilities (languageModel_query e)\<rparr>
     \<and> (languageModel_query e = Some (Inr (Some (js ''no''))) \<longleftrightarrow> a = Some (js ''no''))
     \<and> (\<forall>x. languageModel_query e \<noteq> Some (Inl x))"
  by (auto simp: await_canUseLanguageModel_def languageModel_query_def query_calls_def step_simps
      split: option.splits)

lemma await_canUseLanguageModel_Inl:
  "await_canUseLanguageModel e s = Inl (x, s1) \<Longrightarrow>
     s1 = s\<lparr>calls := calls s @ query_calls LanguageModelCapabilities (languageModel_query e)\<rparr>
     \<and> languageModel_query e = Some (Inl x)"
  by (auto simp: await_canUseLanguageModel_def languageModel_query_def query_calls_def step_simps
      split: option.splits)

lemma create_summarizer_Inr:
  "create_summarizer e s = Inr (a, s1) \<Longrightarrow>
     s1 = s\<lparr>calls := calls s @ [SummarizerCreate]\<rparr> \<and> summarizer_query e \<noteq> None"
  by (auto simp: create_summarizer_def summarizer_query_def step_simps split: option.splits)

lemma create_summarizer_Inl:
  "create_summarizer e s = Inl (x, s1) \<Longrightarrow>
     s1 = s\<lparr>calls := calls s @ query_calls SummarizerCreate (summarizer_query e)\<rparr>"
  by (auto simp: create_summarizer_def summarizer_query_def query_calls_def step_simps
      split: option.splits)

lemma create_session_Inr:
  "create_session e s = Inr (a, s1) \<Longrightarrow>
     s1 = s\<lparr>calls := calls s @ [LanguageModelCreate]\<rparr> \<and> languageModel_query e \<noteq> None"
  by (auto simp: create_session_def languageModel_query_def step_simps split: option.splits)

lemma create_session_Inl:
  "create_session e s = Inl (x, s1) \<Longrightarrow>
     s1 = s\<lparr>calls := calls s @ query_calls LanguageModelCreate (languageModel_query e)\<rparr>"
  by (auto simp: create_session_def languageModel_query_def query_calls_def step_simps
      split: option.splits)

lemmas step_dests = await_canSummarize_Inr await_canSummarize_Inl
  await_canUseLanguageModel_Inr await_canUseLanguageModel_Inl
  create_summarizer_Inr create_summarizer_Inl create_session_Inr create_session_Inl

lemma has_section_noteData: "has_section (noteData e summary reflection text)"
  by (simp add: has_section_def noteData_def)

text \<open>What a completed try block has done.\<close>

lemma generateNotes_try_Inr:
  assumes "generateNotes_try e text s = Inr (u, s')"
  shows "\<exists>summary reflection.
       notes s' = notes s @ [noteData e summary reflection text]
     \<and> currentNoteIndex s' = length (notes s)
     \<and> calls s' = calls s @ [SummarizerCapabilities, LanguageModelCapabilities, SummarizerCreate,
          Summarize text, LanguageModelCreate, Prompt (reflectionPrompt summary),
          StorageSet (notes s @ [noteData e summary reflection text]),
          SummarizerDestroy, SessionDestroy]
     \<and> storage s' = (case storage_set e of
                       None \<Rightarrow> Some (notes s @ [noteData e summary reflection text])
                     | Some err \<Rightarrow> storage s)
     \<and> console s' = (case storage_set e of None \<Rightarrow> console s
                     | Some err \<Rightarrow> console s @ [ErrorSaving err])
     \<and> errorMsg s' = errorMsg s \<and> inputText s' = []
     \<and> initialView s' = DNone \<and> notesView s' = DFlex \<and> loadingView s' = DNone"
  using assms
  unfolding generateNotes_try_def
  apply (elim andThen_InrE)
  apply (simp add: step_simps split: if_splits)
  apply (clarsimp simp: showLoading_def saveNotes_def renderNotes_def showNotesView_def Let_def
      query_calls_def dest!: step_dests split: option.splits)
   apply blast+
  done

text \<open>What a try block that threw has done.\<close>

lemma generateNotes_try_Inl:
  assumes "generateNotes_try e text s = Inl (err, s1)"
  shows "\<exists>tr. calls s1 = calls s @ tr \<and> distinct tr
     \<and> (notes s1 = notes s \<or> StorageSet (notes s1) \<in> set tr)
     \<and> (store_inv s \<longrightarrow> store_inv s1)"
  using assms
  unfolding generateNotes_try_def
  apply (elim andThen_InlE)
  apply (simp_all add: step_simps split: if_splits)
  apply (auto simp: showLoading_def saveNotes_def Let_def set_query_calls distinct_query_calls
     store_inv_def has_section_noteData
     dest!: step_dests split: option.splits)
  done

lemmas try_defs = generateNotes_try_def andThen_def modify_def await_def throw_def ret_def
  await_canSummarize_def await_canUseLanguageModel_def create_summarizer_def create_session_def
  example_env_def example_summarizer_def example_languageModel_def ok_env_def
  showLoading_def

lemma ok_run:
  "\<exists>s'. generateNotes_try ok_env (js ''hi'') (example_state (js '' hi '')) = Inr ((), s')"
  by (simp add: try_defs Let_def js_def)

lemma trim_hi: "trim (inputText (example_state (js '' hi ''))) = js ''hi''"
  by (simp add: example_state_def trim_def js_def isWhiteSpace_def)

lemma markup_run:
  "generateNotes_try markup_env (js ''hi'') (example_state (js '' hi ''))
   = Inl (Error (js ''<b>x</b>''), (showLoading (example_state (js '' hi '')))
        \<lparr>calls := [SummarizerCapabilities, LanguageModelCapabilities, SummarizerCreate,
                   Summarize (js ''hi'')]\<rparr>)"
  by (simp add: try_defs markup_env_def Let_def js_def example_state_def)

text \<open>
  What the catch does, for every throw of the try block: \<open>generateNotes\<close> is the catch
  applied to the state at the throw. The error is logged, the loading view hidden and the
  initial view shown, and the markup assigned to the error element is \<^verbatim>\<open>Error: \<close> followed
  by the message as it is. The catch makes no call, and no call was made twice.
\<close>

lemma catch_effect:
  assumes "trim (inputText s) \<noteq> []"
    and "generateNotes_try e (trim (inputText s)) s = Inl (err, s1)"
  shows "generateNotes e s =
           showError (js ''Error: '' @ message err)
             (hideLoading (s1\<lparr>console := console s1 @ [ErrorGenerating err]\<rparr>))
    \<and> loadingView (generateNotes e s) = DNone
    \<and> initialView (generateNotes e s) = DFlex
    \<and> errorMsg (generateNotes e s) =
         js ''<div class=\"error\">'' @ js ''Error: '' @ message err @ js ''</div>''
    \<and> console (generateNotes e s) = console s1 @ [ErrorGenerating err]
    \<and> notes (generateNotes e s) = notes s1
    \<and> calls (generateNotes e s) = calls s1
    \<and> (\<exists>tr. calls s1 = calls s @ tr \<and> distinct tr)"
proof -
  have "generateNotes e s =
           showError (js ''Error: '' @ message err)
             (hideLoading (s1\<lparr>console := console s1 @ [ErrorGenerating err]\<rparr>))"
    using assms by (simp add: generateNotes_def Let_def)
  moreover have "\<exists>tr. calls s1 = calls s @ tr \<and> distinct tr"
    using generateNotes_try_Inl [OF assms(2)] by blast
  ultimately show ?thesis
    by (simp add: showError_def hideLoading_def)
qed











section \<open>The invariant of the note store\<close>

lemma list_all_splice1: "list_all P xs \<Longrightarrow> list_all P (splice1 i xs)"
  by (auto simp: splice1_def list_all_iff dest: in_set_takeD in_set_dropD)

lemma list_all_update: "list_all P xs \<Longrightarrow> P x \<Longrightarrow> list_all P (xs[i := x])"
  by (auto simp: list_all_iff dest: subsetD [OF set_update_subset_insert])

lemma length_splice1_ge: "length xs - 1 \<le> length (splice1 i xs)"
  by (simp add: splice1_def min_def)

lemma store_inv_saveNotes:
  "store_inv s \<Longrightarrow> list_all has_section ns \<Longrightarrow> store_inv (saveNotes outcome (s\<lparr>notes := ns\<rparr>))"
  by (simp add: store_inv_def saveNotes_def Let_def split: option.splits)

lemma store_inv_renderNotes: "store_inv (renderNotes s) = store_inv s"
  by (simp add: store_inv_def notes_renderNotes storage_renderNotes)

lemma store_inv_loadNotes: "store_inv s \<Longrightarrow> store_inv (loadNotes outcome s)"
  by (auto simp: store_inv_def loadNotes_def Let_def notes_renderNotes storage_renderNotes
      showNotesView_def split: option.splits)

lemma store_inv_generateNotes:
  assumes "store_inv s"
  shows "store_inv (generateNotes e s)"
proof (cases "trim (inputText s) = []")
  case True
  with assms show ?thesis
    by (simp add: generateNotes_def showError_def store_inv_def)
next
  case False
  show ?thesis
  proof (cases "generateNotes_try e (trim (inputText s)) s")
    case (Inl a)
    obtain err s1 where a: "a = (err, s1)" by (cases a)
    from generateNotes_try_Inl [OF Inl [unfolded a]] assms have "store_inv s1" by blast
    with False Inl a show ?thesis
      by (simp add: generateNotes_def Let_def showError_def hideLoading_def store_inv_def)
  next
    case (Inr b)
    obtain u s' where b: "b = (u, s')" by (cases b)
    from generateNotes_try_Inr [OF Inr [unfolded b]] assms have "store_inv s'"
      by (auto simp: store_inv_def has_section_noteData split: option.splits)
    with False Inr b show ?thesis
      by (simp add: generateNotes_def Let_def)
  qed
qed

lemma store_inv_deleteSection:
  assumes "store_inv s" and "deleteSection outcome i j s = Inr s'"
  shows "store_inv s'"
proof -
  from assms(2) have i: "i < length (notes s)"
    by (simp add: deleteSection_def split: if_splits)
  let ?n = "notes s ! i"
  from assms(1) have all: "list_all has_section (notes s)"
    by (simp add: store_inv_def)
  with i have n: "1 \<le> length (sections ?n)"
    by (simp add: list_all_length has_section_def)
  show ?thesis
  proof (cases "length (sections ?n) = 1")
    case True
    with assms(2) i
    have "s' = renderNotes (saveNotes outcome (s\<lparr>notes := splice1 i (notes s)\<rparr>))"
      by (simp add: deleteSection_def Let_def)
    then show ?thesis
      using assms(1) all by (simp add: store_inv_renderNotes store_inv_saveNotes list_all_splice1)
  next
    case False
    with n have "2 \<le> length (sections ?n)" by simp
    then have "has_section (?n\<lparr>sections := splice1 j (sections ?n)\<rparr>)"
      using length_splice1_ge [of "sections ?n" j] by (simp add: has_section_def)
    moreover from False assms(2) i
    have "s' = renderNotes (saveNotes outcome
        (s\<lparr>notes := (notes s)[i := ?n\<lparr>sections := splice1 j (sections ?n)\<rparr>]\<rparr>))"
      by (simp add: deleteSection_def Let_def)
    ultimately show ?thesis
      using assms(1) all by (simp add: store_inv_renderNotes store_inv_saveNotes list_all_update)
  qed
qed

lemma store_inv_titleSpan_blur:
  assumes "store_inv s" and "titleSpan_blur outcome i j v s = Inr s'"
  shows "store_inv s'"
proof -
  from assms(2) have i: "i < length (notes s)"
    by (simp add: titleSpan_blur_def split: if_splits)
  let ?n = "notes s ! i"
  from assms(1) have all: "list_all has_section (notes s)"
    by (simp add: store_inv_def)
  with i have "has_section ?n"
    by (simp add: list_all_length)
  then have "has_section (?n\<lparr>sections := (sections ?n)[j := x]\<rparr>)" for x
    by (simp add: has_section_def)
  moreover from assms(2) i
  have "s' = saveNotes outcome (s\<lparr>notes := (notes s)[i :=
      ?n\<lparr>sections := (sections ?n)[j := (sections ?n ! j)\<lparr>title := v\<rparr>]\<rparr>]\<rparr>)"
    by (simp add: titleSpan_blur_def Let_def split: if_splits)
  ultimately show ?thesis
    using assms(1) all by (simp add: store_inv_saveNotes list_all_update)
qed

lemma store_inv_switchTab:
  "store_inv s \<Longrightarrow> store_inv (final_state (switchTab i j s))"
  by (simp add: switchTab_def Let_def store_inv_def final_state_def split: option.splits)

lemma reachable_store_inv: "reachable s \<Longrightarrow> store_inv s"
proof (induction rule: reachable.induct)
  case (installed s)
  then show ?case by (simp add: store_inv_def)
next
  case (reopened s s')
  then show ?case by (simp add: store_inv_def)
next
  case (loaded s outcome)
  then show ?case by (simp add: store_inv_loadNotes)
next
  case (typed s v)
  then show ?case by (simp add: store_inv_def)
next
  case (generated s e)
  then show ?case by (simp add: store_inv_generateNotes)
next
  case (cleared s)
  then show ?case by (simp add: store_inv_def clearBtn_click_def)
next
  case (new_note s)
  then show ?case by (simp add: store_inv_def showInitialView_def)
next
  case (switched s i j s')
  then show ?case using store_inv_switchTab [of s i j] by (simp add: final_state_def)
next
  case (switch_thrown s i j err s')
  then show ?case using store_inv_switchTab [of s i j] by (simp add: final_state_def)
next
  case (deleted s outcome i j s')
  then show ?case by (simp add: store_inv_deleteSection)
next
  case (renamed s outcome i j v s')
  then show ?case by (simp add: store_inv_titleSpan_blur)
qed

lemma notes_example_generated:
  "\<exists>summary reflection. notes example_generated = [noteData ok_env summary reflection (js ''hi'')]"
proof -
  obtain s' where run: "generateNotes_try ok_env (js ''hi'') (example_state (js '' hi '')) = Inr ((), s')"
    using ok_run by blast
  from generateNotes_try_Inr [OF run] obtain summary reflection where
    "notes s' = notes (example_state (js '' hi '')) @ [noteData ok_env summary reflection (js ''hi'')]"
    by blast
  moreover have "example_generated = s'"
    using run trim_hi by (simp add: example_generated_def generateNotes_def Let_def js_def)
  ultimately have "notes example_generated = [noteData ok_env summary reflection (js ''hi'')]"
    by (simp add: example_state_def)
  then show ?thesis by blast
qed

lemma deleteSection_final:
  "i < length (notes s) \<Longrightarrow>
     deleteSection outcome i j s = Inr (final_state (deleteSection outcome i j s))"
  by (simp add: deleteSection_def final_state_def Let_def)

lemma notes_deleteSection_final:
  "i < length (notes s) \<Longrightarrow>
     notes (final_state (deleteSection outcome i j s)) =
       (if length (sections (notes s ! i)) = 1 then splice1 i (notes s)
        else (notes s)[i := (notes s ! i)\<lparr>sections := splice1 j (sections (notes s ! i))\<rparr>])"
  by (simp add: deleteSection_def final_state_def Let_def notes_renderNotes notes_saveNotes)

section \<open>Persisting\<close>

lemma saveNotes_rejected:
  "saveNotes (Some err) s =
     s\<lparr>calls := calls s @ [StorageSet (notes s)], console := console s @ [ErrorSaving err]\<rparr>"
  by (simp add: saveNotes_def Let_def)

lemma saveNotes_rejected_vs_resolved:
  "saveNotes (Some err) s =
     (saveNotes None s)\<lparr>storage := storage s, console := console s @ [ErrorSaving err]\<rparr>"
  by (simp add: saveNotes_def Let_def)

lemma renderNotes_saveNotes_rejected:
  "renderNotes (saveNotes (Some err) s) =
     (renderNotes (saveNotes None s))\<lparr>storage := storage s, console := console s @ [ErrorSaving err]\<rparr>"
  by (simp add: saveNotes_def renderNotes_def showInitialView_def Let_def)

lemma generation_persists:
  "notes (generateNotes e s) \<noteq> notes s \<longrightarrow>
     StorageSet (notes (generateNotes e s))
       \<in> set (drop (length (calls s)) (calls (generateNotes e s)))"
proof (cases "trim (inputText s) = []")
  case True
  then show ?thesis
    by (simp add: generateNotes_def showError_def)
next
  case False
  show ?thesis
  proof (cases "generateNotes_try e (trim (inputText s)) s")
    case (Inl a)
    obtain err s1 where a: "a = (err, s1)" by (cases a)
    from generateNotes_try_Inl [OF Inl [unfolded a]] obtain tr where
      "calls s1 = calls s @ tr" and "notes s1 = notes s \<or> StorageSet (notes s1) \<in> set tr"
      by blast
    moreover have "generateNotes e s = showError (js ''Error: '' @ message err)
        (hideLoading (s1\<lparr>console := console s1 @ [ErrorGenerating err]\<rparr>))"
      using False Inl a by (simp add: generateNotes_def Let_def)
    ultimately show ?thesis
      by (auto simp: showError_def hideLoading_def)
  next
    case (Inr b)
    obtain u s' where b: "b = (u, s')" by (cases b)
    from generateNotes_try_Inr [OF Inr [unfolded b]] obtain summary reflection where
      "notes s' = notes s @ [noteData e summary reflection (trim (inputText s))]"
      and "calls s' = calls s @ [SummarizerCapabilities, LanguageModelCapabilities, SummarizerCreate,
          Summarize (trim (inputText s)), LanguageModelCreate, Prompt (reflectionPrompt summary),
          StorageSet (notes s @ [noteData e summary reflection (trim (inputText s))]),
          SummarizerDestroy, SessionDestroy]"
      by blast
    moreover have "generateNotes e s = s'"
      using False Inr b by (simp add: generateNotes_def Let_def)
    ultimately show ?thesis
      by simp
  qed
qed

lemma generation_save_rejected:
  assumes "storage_set e = Some err" and "generateNotes_try e text s = Inr (u, s')"
  shows "length (notes s') = Suc (length (notes s)) \<and> storage s' = storage s
    \<and> console s' = console s @ [ErrorSaving err] \<and> errorMsg s' = errorMsg s
    \<and> notesView s' = DFlex"
  using generateNotes_try_Inr [OF assms(2)] assms(1) by auto

lemma trim_example_two: "trim (inputText example_two) = js ''hi''"
  by (simp add: example_two_def example_defs trim_def js_def isWhiteSpace_def)

lemma quota_run:
  "\<exists>s'. generateNotes_try quota_env (js ''hi'') example_two = Inr ((), s')"
  by (simp add: try_defs quota_env_def Let_def js_def)

lemma titleSpan_blur_final:
  "i < length (notes s) \<Longrightarrow> j < length (sections (notes s ! i)) \<Longrightarrow>
     titleSpan_blur outcome i j v s = Inr (final_state (titleSpan_blur outcome i j v s))"
  by (simp add: titleSpan_blur_def final_state_def Let_def)

section \<open>Empty input\<close>

text \<open>
  C3. When the trimmed input is empty, \<open>generateNotes\<close> only sets the validation error:
  the result is the state with that message shown, so no call to the AI services or the
  storage is recorded and the note store and the storage are as before.
\<close>

theorem empty_input_validation_error:
  assumes "trim (inputText s) = []"
  shows "generateNotes e s = showError (js ''Please paste some text to generate notes.'') s
    \<and> errorMsg (generateNotes e s) =
        js ''<div class=\"error\">'' @ js ''Please paste some text to generate notes.'' @ js ''</div>''
    \<and> calls (generateNotes e s) = calls s
    \<and> notes (generateNotes e s) = notes s
    \<and> storage (generateNotes e s) = storage s"
  using assms by (simp add: generateNotes_def showError_def)

theorem empty_input_validation_error_witness:
  "trim (inputText (example_state (js ''  ''))) = []
   \<and> calls (generateNotes ok_env (example_state (js ''  ''))) = []
   \<and> notes (generateNotes ok_env (example_state (js ''  ''))) = []
   \<and> errorMsg (generateNotes ok_env (example_state (js ''  ''))) =
       js ''<div class=\"error\">Please paste some text to generate notes.</div>''"
proof -
  have h: "trim (inputText (example_state (js ''  ''))) = []"
    by (simp add: example_state_def trim_def js_def isWhiteSpace_def)
  show ?thesis
    using h empty_input_validation_error [OF h, of ok_env]
    by (simp add: example_state_def js_def showError_def)
qed

section \<open>Deleting a section\<close>

text \<open>
  C5. For a note with two or more sections and a section index within them,
  \<open>deleteSection\<close> returns normally; the store has the same length, the note keeps its
  id and timestamp, and its sections are the former ones without the one at the index,
  in their former order.
\<close>

theorem deleteSection_one_of_several:
  assumes "noteIndex < length (notes s)"
    and "2 \<le> length (sections (notes s ! noteIndex))"
    and "sectionIndex < length (sections (notes s ! noteIndex))"
  shows "\<exists>s'. deleteSection outcome noteIndex sectionIndex s = Inr s'
    \<and> notes s' = (notes s)[noteIndex := (notes s ! noteIndex)
          \<lparr>sections := take sectionIndex (sections (notes s ! noteIndex))
                        @ drop (Suc sectionIndex) (sections (notes s ! noteIndex))\<rparr>]
    \<and> length (notes s') = length (notes s)
    \<and> note_id (notes s' ! noteIndex) = note_id (notes s ! noteIndex)
    \<and> timestamp (notes s' ! noteIndex) = timestamp (notes s ! noteIndex)
    \<and> length (sections (notes s' ! noteIndex)) = length (sections (notes s ! noteIndex)) - 1
    \<and> (\<forall>k < length (sections (notes s ! noteIndex)) - 1.
          sections (notes s' ! noteIndex) ! k =
            (if k < sectionIndex then sections (notes s ! noteIndex) ! k
             else sections (notes s ! noteIndex) ! Suc k))"
  using assms
  by (simp add: deleteSection_def Let_def notes_renderNotes notes_saveNotes
        nth_splice1 [unfolded splice1_def] splice1_def)

theorem deleteSection_one_of_several_witness:
  "(0::nat) < length (notes (example_store [example_note [example_section ''A'', example_section ''B'']]))
   \<and> 2 \<le> length (sections (notes (example_store
          [example_note [example_section ''A'', example_section ''B'']]) ! 0))
   \<and> (0::nat) < length (sections (notes (example_store
          [example_note [example_section ''A'', example_section ''B'']]) ! 0))
   \<and> (\<exists>s'. deleteSection None 0 0
          (example_store [example_note [example_section ''A'', example_section ''B'']]) = Inr s'
        \<and> notes s' = [example_note [example_section ''B'']])"
  using deleteSection_one_of_several
    [of 0 "example_store [example_note [example_section ''A'', example_section ''B'']]" 0 None]
  by (auto simp: example_defs)

text \<open>
  C10. For a valid note index and section index, \<open>deleteSection\<close> leaves every other
  note as it was: the notes before the index keep their place; when the note had a single
  section the store is one shorter and the later notes move down by one, unmodified;
  otherwise the store keeps its length and every note at another index is unchanged.
\<close>

theorem deleteSection_frame:
  assumes "noteIndex < length (notes s)"
    and "sectionIndex < length (sections (notes s ! noteIndex))"
  shows "\<exists>s'. deleteSection outcome noteIndex sectionIndex s = Inr s'
    \<and> (\<forall>k < noteIndex. notes s' ! k = notes s ! k)
    \<and> (if length (sections (notes s ! noteIndex)) = 1
        then length (notes s') = length (notes s) - 1
           \<and> (\<forall>k. noteIndex \<le> k \<and> k < length (notes s') \<longrightarrow> notes s' ! k = notes s ! Suc k)
        else length (notes s') = length (notes s)
           \<and> (\<forall>k < length (notes s). k \<noteq> noteIndex \<longrightarrow> notes s' ! k = notes s ! k))"
  using assms
  by (simp add: deleteSection_def Let_def notes_renderNotes notes_saveNotes
        nth_splice1 length_splice1)

theorem deleteSection_frame_witness:
  "(1::nat) < length (notes (example_store
      [example_note [example_section ''A''], example_note [example_section ''B''],
       example_note [example_section ''C'', example_section ''D'']]))
   \<and> (0::nat) < length (sections (notes (example_store
      [example_note [example_section ''A''], example_note [example_section ''B''],
       example_note [example_section ''C'', example_section ''D'']]) ! 1))
   \<and> (\<exists>s'. deleteSection None 1 0 (example_store
      [example_note [example_section ''A''], example_note [example_section ''B''],
       example_note [example_section ''C'', example_section ''D'']]) = Inr s'
      \<and> notes s' = [example_note [example_section ''A''],
                     example_note [example_section ''C'', example_section ''D'']])"
  using deleteSection_frame
    [of 1 "example_store
      [example_note [example_section ''A''], example_note [example_section ''B''],
       example_note [example_section ''C'', example_section ''D'']]" 0 None]
  by (simp add: example_defs deleteSection_def Let_def notes_renderNotes notes_saveNotes splice1_def)

section \<open>Renaming a section\<close>

text \<open>
  C7. After a section is renamed and the save that the handler starts has succeeded, a load
  from that storage (in this or in a later session, \<open>r\<close>) that succeeds yields the note
  store as it was after the rename: the section carries the new title, with its content.
\<close>

theorem rename_save_load_roundtrip:
  assumes "noteIndex < length (notes s)"
    and "sectionIndex < length (sections (notes s ! noteIndex))"
    and "storage r = storage s1"
    and "titleSpan_blur None noteIndex sectionIndex newTitle s = Inr s1"
  shows "notes (loadNotes None r) = notes s1
    \<and> title (sections (notes (loadNotes None r) ! noteIndex) ! sectionIndex) = newTitle
    \<and> content (sections (notes (loadNotes None r) ! noteIndex) ! sectionIndex)
        = content (sections (notes s ! noteIndex) ! sectionIndex)
    \<and> length (notes (loadNotes None r)) = length (notes s)"
  using assms
  by (auto simp: titleSpan_blur_def loadNotes_def Let_def notes_renderNotes notes_saveNotes
        storage_saveNotes showNotesView_def)

theorem rename_save_load_roundtrip_witness:
  "(0::nat) < length (notes (example_store [example_note [example_section ''A'', example_section ''B'']]))
   \<and> (1::nat) < length (sections (notes (example_store
          [example_note [example_section ''A'', example_section ''B'']]) ! 0))
   \<and> storage (example_state []\<lparr>storage := Some [example_note [example_section ''A'', example_section ''Z'']]\<rparr>)
       = storage (saveNotes None (example_store [example_note [example_section ''A'', example_section ''B'']]
            \<lparr>notes := [example_note [example_section ''A'', example_section ''Z'']]\<rparr>))
   \<and> titleSpan_blur None 0 1 (js ''Z'')
        (example_store [example_note [example_section ''A'', example_section ''B'']])
       = Inr (saveNotes None (example_store [example_note [example_section ''A'', example_section ''B'']]
            \<lparr>notes := [example_note [example_section ''A'', example_section ''Z'']]\<rparr>))
   \<and> notes (loadNotes None
         (example_state []\<lparr>storage := Some [example_note [example_section ''A'', example_section ''Z'']]\<rparr>))
       = [example_note [example_section ''A'', example_section ''Z'']]"
proof -
  let ?s = "example_store [example_note [example_section ''A'', example_section ''B'']]"
  let ?s1 = "saveNotes None (?s\<lparr>notes := [example_note [example_section ''A'', example_section ''Z'']]\<rparr>)"
  let ?r = "example_state []\<lparr>storage := Some [example_note [example_section ''A'', example_section ''Z'']]\<rparr>"
  have h1: "(0::nat) < length (notes ?s)" by (simp add: example_defs)
  have h2: "(1::nat) < length (sections (notes ?s ! 0))" by (simp add: example_defs)
  have h3: "storage ?r = storage ?s1" by (simp add: example_defs storage_saveNotes)
  have h4: "titleSpan_blur None 0 1 (js ''Z'') ?s = Inr ?s1"
    by (simp add: example_defs titleSpan_blur_def Let_def)
  show ?thesis
    using h1 h2 h3 h4 rename_save_load_roundtrip [OF h1 h2 h3 h4]
    by (simp add: notes_saveNotes)
qed

section \<open>Generation\<close>

text \<open>
  C2. When the trimmed input is not empty and the try block completes, \<open>generateNotes\<close>
  returns the state the block ends in; the store is the former one with one note appended,
  whose sections are exactly three, titled Summary, Reflection and Original Text in this
  order, the third holding the trimmed input.
\<close>

theorem generation_three_sections:
  assumes "trim (inputText s) \<noteq> []"
    and "generateNotes_try e (trim (inputText s)) s = Inr (u, s')"
  shows "generateNotes e s = s'
    \<and> length (notes s') = Suc (length (notes s)) \<and> butlast (notes s') = notes s
    \<and> length (sections (last (notes s'))) = 3
    \<and> map title (sections (last (notes s'))) = [js ''Summary'', js ''Reflection'', js ''Original Text'']
    \<and> content (sections (last (notes s')) ! 2) = trim (inputText s)"
proof -
  from generateNotes_try_Inr [OF assms(2)] obtain summary reflection where
    "notes s' = notes s @ [noteData e summary reflection (trim (inputText s))]"
    by blast
  moreover have "generateNotes e s = s'"
    using assms by (simp add: generateNotes_def Let_def)
  ultimately show ?thesis
    by (simp add: noteData_def)
qed

theorem generation_three_sections_witness:
  "trim (inputText (example_state (js '' hi ''))) \<noteq> []
   \<and> generateNotes_try ok_env (trim (inputText (example_state (js '' hi ''))))
        (example_state (js '' hi ''))
       = Inr ((), generateNotes ok_env (example_state (js '' hi '')))
   \<and> map title (sections (last (notes (generateNotes ok_env (example_state (js '' hi ''))))))
       = [js ''Summary'', js ''Reflection'', js ''Original Text'']
   \<and> content (sections (last (notes (generateNotes ok_env (example_state (js '' hi ''))))) ! 2)
       = js ''hi''"
proof -
  have h1: "trim (inputText (example_state (js '' hi ''))) \<noteq> []"
    using trim_hi by (simp add: js_def)
  obtain s' where h2: "generateNotes_try ok_env (trim (inputText (example_state (js '' hi ''))))
        (example_state (js '' hi '')) = Inr ((), s')"
    using ok_run by (auto simp: trim_hi)
  show ?thesis
    using h1 h2 generation_three_sections [OF h1 h2] by (simp add: trim_hi)
qed

text \<open>
  C9. When the try block completes, the store is not empty and \<open>currentNoteIndex\<close> is its
  length minus one: the index of the note that was just appended.
\<close>

theorem generation_sets_currentNoteIndex:
  assumes "trim (inputText s) \<noteq> []"
    and "generateNotes_try e (trim (inputText s)) s = Inr (u, s')"
  shows "generateNotes e s = s'
    \<and> notes s' \<noteq> []
    \<and> currentNoteIndex s' = length (notes s') - 1
    \<and> length (notes s') = Suc (length (notes s))"
proof -
  from generateNotes_try_Inr [OF assms(2)] obtain summary reflection where
    "notes s' = notes s @ [noteData e summary reflection (trim (inputText s))]"
    and "currentNoteIndex s' = length (notes s)"
    by blast
  moreover have "generateNotes e s = s'"
    using assms by (simp add: generateNotes_def Let_def)
  ultimately show ?thesis
    by simp
qed

theorem generation_sets_currentNoteIndex_witness:
  "trim (inputText (example_state (js '' hi ''))) \<noteq> []
   \<and> generateNotes_try ok_env (trim (inputText (example_state (js '' hi ''))))
        (example_state (js '' hi ''))
       = Inr ((), generateNotes ok_env (example_state (js '' hi '')))
   \<and> length (notes (generateNotes ok_env (example_state (js '' hi '')))) = 1
   \<and> currentNoteIndex (generateNotes ok_env (example_state (js '' hi ''))) = 0"
proof -
  have h1: "trim (inputText (example_state (js '' hi ''))) \<noteq> []"
    using trim_hi by (simp add: js_def)
  obtain s' where h2: "generateNotes_try ok_env (trim (inputText (example_state (js '' hi ''))))
        (example_state (js '' hi '')) = Inr ((), s')"
    using ok_run by (auto simp: trim_hi)
  show ?thesis
    using h1 h2 generation_sets_currentNoteIndex [OF h1 h2] by (simp add: example_state_def)
qed




text \<open>
  C6. The claim asks that the message of every caught error be shown to the user verbatim.
  The catch does hide the loading view and makes no further call, but \<^verbatim>\<open>showError\<close> puts the
  message into the markup unescaped, so a message with markup of its own is not shown as
  it is. When the summarizer rejects with the message \<^verbatim>\<open><b>x</b>\<close>, the markup assigned to the
  error element is \<^verbatim>\<open><div class="error">Error: <b>x</b></div>\<close>: the page parses the message
  as a \<^verbatim>\<open>b\<close> element and the user reads \<^verbatim>\<open>Error: x\<close>. The headings and contents of the notes
  go through \<^verbatim>\<open>textContent\<close> and are shown as they are.
\<close>

theorem generation_failure_message_as_markup:
  "trim (inputText (example_state (js '' hi ''))) \<noteq> []
   \<and> generateNotes_try markup_env (trim (inputText (example_state (js '' hi ''))))
        (example_state (js '' hi ''))
     = Inl (Error (js ''<b>x</b>''), (showLoading (example_state (js '' hi '')))
        \<lparr>calls := [SummarizerCapabilities, LanguageModelCapabilities, SummarizerCreate,
                   Summarize (js ''hi'')]\<rparr>)
   \<and> errorMsg (generateNotes markup_env (example_state (js '' hi '')))
       = js ''<div class=\"error\">Error: <b>x</b></div>''
   \<and> loadingView (generateNotes markup_env (example_state (js '' hi ''))) = DNone
   \<and> calls (generateNotes markup_env (example_state (js '' hi '')))
       = [SummarizerCapabilities, LanguageModelCapabilities, SummarizerCreate,
          Summarize (js ''hi'')]"
proof -
  have h1: "trim (inputText (example_state (js '' hi ''))) \<noteq> []"
    using trim_hi by (simp add: js_def)
  have h2: "generateNotes_try markup_env (trim (inputText (example_state (js '' hi ''))))
        (example_state (js '' hi ''))
     = Inl (Error (js ''<b>x</b>''), (showLoading (example_state (js '' hi '')))
        \<lparr>calls := [SummarizerCapabilities, LanguageModelCapabilities, SummarizerCreate,
                   Summarize (js ''hi'')]\<rparr>)"
    using markup_run by (simp add: trim_hi)
  show ?thesis
    using h1 h2 catch_effect [OF h1 h2]
    by (simp add: js_def showError_def hideLoading_def)
qed

section \<open>The invariant\<close>

text \<open>
  C1. In every reachable state each note of the store has at least one section; and
  \<open>deleteSection\<close> on a note with exactly one section returns normally with the store
  without that note, which is again a reachable state.
\<close>

theorem note_always_has_a_section:
  assumes "reachable s"
  shows "(\<forall>n \<in> set (notes s). 1 \<le> length (sections n))
    \<and> (\<forall>noteIndex sectionIndex outcome.
          noteIndex < length (notes s) \<and> length (sections (notes s ! noteIndex)) = 1 \<longrightarrow>
          (\<exists>s'. deleteSection outcome noteIndex sectionIndex s = Inr s'
             \<and> notes s' = take noteIndex (notes s) @ drop (Suc noteIndex) (notes s)
             \<and> length (notes s') = length (notes s) - 1
             \<and> reachable s'))"
proof -
  from assms have "store_inv s" by (rule reachable_store_inv)
  then have "\<forall>n \<in> set (notes s). 1 \<le> length (sections n)"
    by (simp add: store_inv_def list_all_iff has_section_def)
  moreover have "\<exists>s'. deleteSection outcome noteIndex sectionIndex s = Inr s'
             \<and> notes s' = take noteIndex (notes s) @ drop (Suc noteIndex) (notes s)
             \<and> length (notes s') = length (notes s) - 1
             \<and> reachable s'"
    if "noteIndex < length (notes s)" and "length (sections (notes s ! noteIndex)) = 1"
    for noteIndex sectionIndex outcome
  proof -
    let ?s' = "renderNotes (saveNotes outcome (s\<lparr>notes := splice1 noteIndex (notes s)\<rparr>))"
    have d: "deleteSection outcome noteIndex sectionIndex s = Inr ?s'"
      using that by (simp add: deleteSection_def Let_def)
    moreover have "notes ?s' = take noteIndex (notes s) @ drop (Suc noteIndex) (notes s)"
      by (simp add: notes_renderNotes notes_saveNotes splice1_def)
    moreover have "length (notes ?s') = length (notes s) - 1"
      using that by (simp add: notes_renderNotes notes_saveNotes length_splice1)
    moreover have "reachable ?s'"
      using assms d by (rule reachable.deleted)
    ultimately show ?thesis by blast
  qed
  ultimately show ?thesis by blast
qed

theorem note_always_has_a_section_witness:
  "reachable example_single
   \<and> map (\<lambda>n. length (sections n)) (notes example_single) = [1]
   \<and> (0::nat) < length (notes example_single)
   \<and> length (sections (notes example_single ! 0)) = 1
   \<and> (\<exists>s'. deleteSection None 0 0 example_single = Inr s' \<and> notes s' = [] \<and> reachable s')"
proof -
  obtain summary reflection where
    n1: "notes example_generated = [noteData ok_env summary reflection (js ''hi'')]"
    using notes_example_generated by blast
  let ?r2 = "final_state (deleteSection None 0 0 example_generated)"
  have r1: "reachable example_generated"
    unfolding example_generated_def
    by (intro reachable.generated reachable.installed) (simp_all add: example_state_def)
  have d1: "deleteSection None 0 0 example_generated = Inr ?r2"
    by (rule deleteSection_final) (simp add: n1)
  have n2: "notes ?r2 = [(noteData ok_env summary reflection (js ''hi''))
      \<lparr>sections := [\<lparr>title = js ''Reflection'', content = reflection\<rparr>,
                    \<lparr>title = js ''Original Text'', content = js ''hi''\<rparr>]\<rparr>]"
    by (simp add: notes_deleteSection_final n1 splice1_def noteData_def)
  have r2: "reachable ?r2"
    using r1 d1 by (rule reachable.deleted)
  have d2: "deleteSection None 0 0 ?r2 = Inr example_single"
    unfolding example_single_def by (rule deleteSection_final) (simp add: n2)
  have n3: "notes example_single = [(noteData ok_env summary reflection (js ''hi''))
      \<lparr>sections := [\<lparr>title = js ''Original Text'', content = js ''hi''\<rparr>]\<rparr>]"
    unfolding example_single_def by (simp add: notes_deleteSection_final n2 splice1_def)
  have r3: "reachable example_single"
    using r2 d2 by (rule reachable.deleted)
  show ?thesis
    using r3 note_always_has_a_section [OF r3]
    by (auto simp: n3)
qed

section \<open>Persistence\<close>

text \<open>
  C8. Every mutation of the note store hands the mutated store to the storage: a
  generation that changes the store, a \<open>deleteSection\<close> and a rename that return each
  record a \<open>StorageSet\<close> of the new store. A rejected save only records the call and logs
  the error. A generation that completes with its save rejected has the note appended,
  the notes view shown, the error element as before and the storage untouched; a
  \<open>deleteSection\<close> or rename whose save is rejected ends in the state of the run whose save
  resolved, but for the storage (untouched) and the console (the logged error).
\<close>

theorem every_mutation_persists:
  "(notes (generateNotes e s) \<noteq> notes s \<longrightarrow>
      StorageSet (notes (generateNotes e s))
        \<in> set (drop (length (calls s)) (calls (generateNotes e s))))
   \<and> (deleteSection outcome i j s = Inr d \<longrightarrow> calls d = calls s @ [StorageSet (notes d)])
   \<and> (titleSpan_blur outcome i j v s = Inr b \<longrightarrow> calls b = calls s @ [StorageSet (notes b)])
   \<and> saveNotes (Some err) s =
       s\<lparr>calls := calls s @ [StorageSet (notes s)], console := console s @ [ErrorSaving err]\<rparr>
   \<and> (storage_set e = Some err \<and> generateNotes_try e (trim (inputText s)) s = Inr (u, s') \<longrightarrow>
        length (notes s') = Suc (length (notes s)) \<and> storage s' = storage s
        \<and> console s' = console s @ [ErrorSaving err] \<and> errorMsg s' = errorMsg s
        \<and> notesView s' = DFlex)
   \<and> (deleteSection (Some err) i j s = Inr d \<longrightarrow>
        (\<exists>d0. deleteSection None i j s = Inr d0
           \<and> d = d0\<lparr>storage := storage s, console := console s @ [ErrorSaving err]\<rparr>))
   \<and> (titleSpan_blur (Some err) i j v s = Inr b \<longrightarrow>
        (\<exists>b0. titleSpan_blur None i j v s = Inr b0
           \<and> b = b0\<lparr>storage := storage s, console := console s @ [ErrorSaving err]\<rparr>))"
proof (intro conjI)
  show "notes (generateNotes e s) \<noteq> notes s \<longrightarrow>
      StorageSet (notes (generateNotes e s))
        \<in> set (drop (length (calls s)) (calls (generateNotes e s)))"
    by (rule generation_persists)
  show "deleteSection outcome i j s = Inr d \<longrightarrow> calls d = calls s @ [StorageSet (notes d)]"
    by (auto simp: deleteSection_def Let_def calls_renderNotes calls_saveNotes notes_renderNotes
        notes_saveNotes split: if_splits)
  show "titleSpan_blur outcome i j v s = Inr b \<longrightarrow> calls b = calls s @ [StorageSet (notes b)]"
    by (auto simp: titleSpan_blur_def Let_def calls_saveNotes notes_saveNotes split: if_splits)
  show "saveNotes (Some err) s =
       s\<lparr>calls := calls s @ [StorageSet (notes s)], console := console s @ [ErrorSaving err]\<rparr>"
    by (rule saveNotes_rejected)
  show "storage_set e = Some err \<and> generateNotes_try e (trim (inputText s)) s = Inr (u, s') \<longrightarrow>
        length (notes s') = Suc (length (notes s)) \<and> storage s' = storage s
        \<and> console s' = console s @ [ErrorSaving err] \<and> errorMsg s' = errorMsg s
        \<and> notesView s' = DFlex"
    using generation_save_rejected by blast
  show "deleteSection (Some err) i j s = Inr d \<longrightarrow>
        (\<exists>d0. deleteSection None i j s = Inr d0
           \<and> d = d0\<lparr>storage := storage s, console := console s @ [ErrorSaving err]\<rparr>)"
    by (auto simp: deleteSection_def Let_def renderNotes_saveNotes_rejected split: if_splits)
  show "titleSpan_blur (Some err) i j v s = Inr b \<longrightarrow>
        (\<exists>b0. titleSpan_blur None i j v s = Inr b0
           \<and> b = b0\<lparr>storage := storage s, console := console s @ [ErrorSaving err]\<rparr>)"
    by (auto simp: titleSpan_blur_def Let_def saveNotes_rejected_vs_resolved split: if_splits)
qed

theorem every_mutation_persists_witness:
  "notes (generateNotes quota_env example_two) \<noteq> notes example_two
   \<and> StorageSet (notes (generateNotes quota_env example_two))
        \<in> set (drop (length (calls example_two)) (calls (generateNotes quota_env example_two)))
   \<and> storage_set quota_env = Some (Error (js ''quota''))
   \<and> generateNotes_try quota_env (trim (inputText example_two)) example_two
        = Inr ((), generateNotes quota_env example_two)
   \<and> console (generateNotes quota_env example_two) = [ErrorSaving (Error (js ''quota''))]
   \<and> errorMsg (generateNotes quota_env example_two) = []
   \<and> storage (generateNotes quota_env example_two) = storage example_two
   \<and> deleteSection (Some (Error (js ''quota''))) 0 0 example_two
        = Inr (final_state (deleteSection (Some (Error (js ''quota''))) 0 0 example_two))
   \<and> calls (final_state (deleteSection (Some (Error (js ''quota''))) 0 0 example_two))
        = [StorageSet [example_note [example_section ''B'']]]
   \<and> console (final_state (deleteSection (Some (Error (js ''quota''))) 0 0 example_two))
        = [ErrorSaving (Error (js ''quota''))]
   \<and> storage (final_state (deleteSection (Some (Error (js ''quota''))) 0 0 example_two))
        = storage example_two
   \<and> titleSpan_blur (Some (Error (js ''quota''))) 0 0 (js ''Z'') example_two
        = Inr (final_state (titleSpan_blur (Some (Error (js ''quota''))) 0 0 (js ''Z'') example_two))
   \<and> calls (final_state (titleSpan_blur (Some (Error (js ''quota''))) 0 0 (js ''Z'') example_two))
        = [StorageSet [example_note [\<lparr>title = js ''Z'', content = js ''c''\<rparr>, example_section ''B'']]]
   \<and> storage (final_state (titleSpan_blur (Some (Error (js ''quota''))) 0 0 (js ''Z'') example_two))
        = storage example_two"
proof -
  let ?q = "Error (js ''quota'')"
  let ?d = "final_state (deleteSection (Some ?q) 0 0 example_two)"
  let ?b = "final_state (titleSpan_blur (Some ?q) 0 0 (js ''Z'') example_two)"
  have n: "notes example_two = [example_note [example_section ''A'', example_section ''B'']]"
    by (simp add: example_two_def example_store_def)
  have c: "calls example_two = []" "console example_two = []" "errorMsg example_two = []"
    by (simp_all add: example_two_def example_store_def example_state_def)
  have q: "storage_set quota_env = Some ?q"
    by (simp add: quota_env_def example_env_def)
  obtain s' where run: "generateNotes_try quota_env (trim (inputText example_two)) example_two
      = Inr ((), s')"
    using quota_run by (auto simp: trim_example_two)
  have g: "generateNotes quota_env example_two = s'"
    using run trim_example_two by (simp add: generateNotes_def Let_def js_def)
  from generateNotes_try_Inr [OF run] have grown: "notes s' \<noteq> notes example_two"
    by auto
  have hd: "deleteSection (Some ?q) 0 0 example_two = Inr ?d"
    by (rule deleteSection_final) (simp add: n)
  have hb: "titleSpan_blur (Some ?q) 0 0 (js ''Z'') example_two = Inr ?b"
    by (rule titleSpan_blur_final) (simp_all add: n example_note_def)
  have nd: "notes ?d = [example_note [example_section ''B'']]"
    by (simp add: notes_deleteSection_final n splice1_def example_note_def)
  have nb: "notes ?b
      = [example_note [\<lparr>title = js ''Z'', content = js ''c''\<rparr>, example_section ''B'']]"
    by (simp add: titleSpan_blur_def final_state_def Let_def n notes_saveNotes example_note_def
        example_section_def)
  show ?thesis
    using every_mutation_persists [where e = quota_env and s = example_two and outcome = "Some ?q"
        and err = ?q and i = 0 and j = 0 and v = "js ''Z''" and d = ?d and b = ?b
        and u = "()" and s' = s']
      q run grown hd hb
    by (auto simp: g c nd nb)
qed

end
